theory Spec2Isabelle
  imports Complex_Main
begin

section \<open>Python and pandas primitives used by the ETL code\<close>

text \<open>
  Strings are lists of 8-bit characters. A pandas cell that is missing (NaN, None, NaT)
  is \<open>None\<close>; a present cell is \<open>Some v\<close>. Exceptions are values of the type
  \<open>exn\<close>; a computation that may raise returns \<open>exn + 'a\<close> with \<open>Inl\<close> for the raise.
  A \<open>KeyError\<close> carries the name of the column whose lookup failed.
\<close>

datatype exn =
    ValueError | AttributeError | ZeroDivisionError | FileNotFoundError | OtherError
  | KeyError string | TypeError

text \<open>\<open>str.isspace\<close> on the code points below 256.\<close>

definition py_isspace :: "char \<Rightarrow> bool" where
  "py_isspace c \<longleftrightarrow>
     (let n = (of_char c :: nat)
      in (9 \<le> n \<and> n \<le> 13) \<or> (28 \<le> n \<and> n \<le> 32) \<or> n = 133 \<or> n = 160)"

text \<open>\<open>s.strip()\<close>: whitespace removed at both ends.\<close>

definition strip :: "string \<Rightarrow> string" where
  "strip s = rev (dropWhile py_isspace (rev (dropWhile py_isspace s)))"

text \<open>\<open>s.split(sep)\<close> for a one-character separator: never an empty list.\<close>

fun split_on :: "char \<Rightarrow> string \<Rightarrow> string list" where
  "split_on c [] = [[]]"
| "split_on c (x # xs) =
     (if x = c then [] # split_on c xs
      else (case split_on c xs of
              [] \<Rightarrow> [[x]]
            | p # ps \<Rightarrow> (x # p) # ps))"

text \<open>\<open>s.replace(c, '')\<close> for a one-character pattern.\<close>

definition remove_char :: "char \<Rightarrow> string \<Rightarrow> string" where
  "remove_char c s = filter (\<lambda>x. x \<noteq> c) s"

definition is_digit :: "char \<Rightarrow> bool" where
  "is_digit c \<longleftrightarrow> (let n = (of_char c :: nat) in 48 \<le> n \<and> n \<le> 57)"

definition digit_val :: "char \<Rightarrow> nat" where
  "digit_val c = (of_char c :: nat) - 48"

text \<open>
  The digit part of a Python integer literal as \<open>int()\<close> accepts it: decimal digits,
  with single underscores allowed between two digits. The accumulator holds the value
  of the digits read so far; the function is entered after a digit.
\<close>

fun parse_digits :: "nat \<Rightarrow> string \<Rightarrow> nat option" where
  "parse_digits acc [] = Some acc"
| "parse_digits acc [c] =
     (if is_digit c then Some (10 * acc + digit_val c) else None)"
| "parse_digits acc (c # d # ds) =
     (if is_digit c then parse_digits (10 * acc + digit_val c) (d # ds)
      else if c = CHR ''_'' \<and> is_digit d then parse_digits (10 * acc + digit_val d) ds
      else None)"

text \<open>
  The interpreter refuses to convert a text with more decimal digits than
  \<open>sys.int_max_str_digits\<close>; underscores are not counted, leading zeros are. The value
  is the interpreter's default.
\<close>

definition max_str_digits :: nat where
  "max_str_digits = 4300"

definition parse_unsigned :: "string \<Rightarrow> nat option" where
  "parse_unsigned s =
     (case s of
        [] \<Rightarrow> None
      | c # cs \<Rightarrow>
          if max_str_digits < length (filter is_digit (c # cs)) then None
          else if is_digit c then parse_digits (digit_val c) cs
          else None)"

text \<open>
  The padding that \<open>int()\<close> skips at both ends of its argument, on the code points below
  256. It is smaller than the set of \<open>str.strip\<close>: the separators 28 to 31 are not in it.
\<close>

definition int_isspace :: "char \<Rightarrow> bool" where
  "int_isspace c \<longleftrightarrow>
     (let n = (of_char c :: nat)
      in (9 \<le> n \<and> n \<le> 13) \<or> n = 32 \<or> n = 133 \<or> n = 160)"

definition int_strip :: "string \<Rightarrow> string" where
  "int_strip s = rev (dropWhile int_isspace (rev (dropWhile int_isspace s)))"

text \<open>
  \<open>int(s)\<close> for a string: the padding is ignored, one sign is allowed before the digits,
  and anything else raises \<open>ValueError\<close> (\<open>None\<close> here).
\<close>

definition py_int :: "string \<Rightarrow> int option" where
  "py_int s =
     (case int_strip s of
        [] \<Rightarrow> None
      | c # cs \<Rightarrow>
          if c = CHR ''+'' then map_option int (parse_unsigned cs)
          else if c = CHR ''-'' then map_option (\<lambda>n. - int n) (parse_unsigned cs)
          else map_option int (parse_unsigned (c # cs)))"

definition int_or_raise :: "string \<Rightarrow> exn + int" where
  "int_or_raise s = (case py_int s of None \<Rightarrow> Inl ValueError | Some n \<Rightarrow> Inr n)"

subsection \<open>The owners-range parser\<close>

text \<open>
  The body of the \<open>try\<close> block of \<open>_parse_owners_range\<close>. Unpacking the result of
  \<open>split\<close> into two names raises \<open>ValueError\<close> unless there are exactly two pieces.
\<close>

definition parse_owners_body :: "string \<Rightarrow> exn + int" where
  "parse_owners_body owners_str =
     (let clean_str = strip owners_str
      in if CHR ''-'' \<in> set clean_str then
           (case split_on CHR ''-'' clean_str of
              [min_val, max_val] \<Rightarrow>
                (case int_or_raise (remove_char CHR '','' min_val) of
                   Inl e \<Rightarrow> Inl e
                 | Inr lo \<Rightarrow>
                     (case int_or_raise (remove_char CHR '','' max_val) of
                        Inl e \<Rightarrow> Inl e
                      | Inr hi \<Rightarrow> Inr ((lo + hi) div 2)))
            | _ \<Rightarrow> Inl ValueError)
         else int_or_raise (remove_char CHR '','' clean_str))"

text \<open>
  \<open>_parse_owners_range\<close>: a missing cell or the text \<open>Unknown\<close> gives 0 before the
  \<open>try\<close>; inside it, \<open>ValueError\<close> and \<open>AttributeError\<close> are caught and give 0, any
  other exception propagates.
\<close>

definition parse_owners_range :: "string option \<Rightarrow> exn + int" where
  "parse_owners_range owners_str =
     (case owners_str of
        None \<Rightarrow> Inr 0
      | Some s \<Rightarrow>
          if s = ''Unknown'' then Inr 0
          else (case parse_owners_body s of
                  Inl ValueError \<Rightarrow> Inr 0
                | Inl AttributeError \<Rightarrow> Inr 0
                | Inl e \<Rightarrow> Inl e
                | Inr n \<Rightarrow> Inr n))"

text \<open>The value of a string of decimal digits, most significant digit first.\<close>

definition dec_value :: "string \<Rightarrow> nat" where
  "dec_value s = foldl (\<lambda>n c. 10 * n + digit_val c) 0 s"

definition all_digits :: "string \<Rightarrow> bool" where
  "all_digits s \<longleftrightarrow> s \<noteq> [] \<and> list_all is_digit s"


subsection \<open>Series and boolean indexing\<close>

text \<open>
  A column (Series) is a list of cells, a boolean mask a list of truth values, a table a
  list of rows. \<open>df[mask]\<close> keeps the rows whose mask entry is true, in order.
\<close>

definition loc :: "'a list \<Rightarrow> bool list \<Rightarrow> 'a list" where
  "loc df msk = map fst (filter snd (zip df msk))"

definition mask_and :: "bool list \<Rightarrow> bool list \<Rightarrow> bool list" where
  "mask_and m1 m2 = map (\<lambda>(a, b). a \<and> b) (zip m1 m2)"

definition mask_or :: "bool list \<Rightarrow> bool list \<Rightarrow> bool list" where
  "mask_or m1 m2 = map (\<lambda>(a, b). a \<or> b) (zip m1 m2)"

text \<open>Comparisons with a scalar: a missing cell compares false, except under \<open>!=\<close>.\<close>

definition ge_cell :: "('a::linorder) option \<Rightarrow> 'a \<Rightarrow> bool" where
  "ge_cell x c = (case x of None \<Rightarrow> False | Some v \<Rightarrow> c \<le> v)"

definition le_cell :: "('a::linorder) option \<Rightarrow> 'a \<Rightarrow> bool" where
  "le_cell x c = (case x of None \<Rightarrow> False | Some v \<Rightarrow> v \<le> c)"

definition gt_cell :: "('a::linorder) option \<Rightarrow> 'a \<Rightarrow> bool" where
  "gt_cell x c = (case x of None \<Rightarrow> False | Some v \<Rightarrow> c < v)"

definition eq_cell :: "'a option \<Rightarrow> 'a \<Rightarrow> bool" where
  "eq_cell x c = (case x of None \<Rightarrow> False | Some v \<Rightarrow> v = c)"

definition ne_cell :: "'a option \<Rightarrow> 'a \<Rightarrow> bool" where
  "ne_cell x c = (case x of None \<Rightarrow> True | Some v \<Rightarrow> v \<noteq> c)"

definition notna :: "'a option \<Rightarrow> bool" where
  "notna x = (case x of None \<Rightarrow> False | Some v \<Rightarrow> True)"

definition fillna :: "'a \<Rightarrow> 'a option \<Rightarrow> 'a option" where
  "fillna v x = (case x of None \<Rightarrow> Some v | Some y \<Rightarrow> Some y)"

text \<open>Arithmetic on cells: a missing operand gives a missing result.\<close>

definition add_cell :: "int option \<Rightarrow> int option \<Rightarrow> int option" where
  "add_cell x y = (case (x, y) of (Some a, Some b) \<Rightarrow> Some (a + b) | _ \<Rightarrow> None)"

definition mul_cell :: "real option \<Rightarrow> real option \<Rightarrow> real option" where
  "mul_cell x y = (case (x, y) of (Some a, Some b) \<Rightarrow> Some (a * b) | _ \<Rightarrow> None)"

text \<open>\<open>Series.max()\<close>: the largest present value; missing when there is none.\<close>

definition series_max :: "int option list \<Rightarrow> int option" where
  "series_max xs =
     (case List.map_filter (\<lambda>x. x) xs of
        [] \<Rightarrow> None
      | v # vs \<Rightarrow> Some (fold max vs v))"

text \<open>
  \<open>drop_duplicates(subset=[key], keep='first')\<close>: a row is kept when no earlier row
  has its key. Two missing keys count as equal, as in pandas.
\<close>

fun drop_duplicates_from :: "('a \<Rightarrow> 'k) \<Rightarrow> 'k list \<Rightarrow> 'a list \<Rightarrow> 'a list" where
  "drop_duplicates_from key seen [] = []"
| "drop_duplicates_from key seen (r # rs) =
     (if key r \<in> set seen then drop_duplicates_from key seen rs
      else r # drop_duplicates_from key (key r # seen) rs)"

definition drop_duplicates :: "('a \<Rightarrow> 'k) \<Rightarrow> 'a list \<Rightarrow> 'a list" where
  "drop_duplicates key df = drop_duplicates_from key [] df"




text \<open>
  \<open>pd.cut(x, bins, labels, include_lowest)\<close> with the default \<open>right=True\<close>: bin \<open>i\<close>
  is the interval from \<open>bins[i-1]\<close> (excluded) to \<open>bins[i]\<close> (included); a value equal to
  the first edge goes to the first bin under \<open>include_lowest\<close>; a value outside every
  bin, or a missing one, is missing. The edges are ascending and the last may be infinite.
\<close>

datatype edge = Fin real | PInf

fun edge_less :: "edge \<Rightarrow> real \<Rightarrow> bool" where
  "edge_less (Fin b) x = (b < x)"
| "edge_less PInf x = False"

definition searchsorted_left :: "edge list \<Rightarrow> real \<Rightarrow> nat" where
  "searchsorted_left bins x = length (takeWhile (\<lambda>b. edge_less b x) bins)"

definition cut :: "edge list \<Rightarrow> string list \<Rightarrow> bool \<Rightarrow> real option \<Rightarrow> string option" where
  "cut bins labels include_lowest x =
     (case x of
        None \<Rightarrow> None
      | Some v \<Rightarrow>
          (let ids = (if include_lowest \<and> [Fin v] = take 1 bins then 1
                      else searchsorted_left bins v)
           in if ids = 0 \<or> ids = length bins \<or> length labels < ids then None
              else Some (labels ! (ids - 1))))"

subsection \<open>The table of games\<close>

text \<open>
  A \<open>release_date\<close> cell is text as read from the file, a timestamp once parsed, or
  missing (NaN before parsing, NaT after it).
\<close>

datatype date_cell = NaT | Raw string | Timestamp int int int

text \<open>
  One row of the table. The first eighteen fields are the columns of the input file, the
  others are the columns the transform stages assign. A stage that assigns a column does
  so for every row, whether or not the column existed before.
\<close>

record game =
  appid :: "int option"
  name :: "string option"
  release_date :: date_cell
  english :: "int option"
  developer :: "string option"
  publisher :: "string option"
  platforms :: "string option"
  required_age :: "int option"
  categories :: "string option"
  genres :: "string option"
  steamspy_tags :: "string option"
  achievements :: "int option"
  positive_ratings :: "int option"
  negative_ratings :: "int option"
  average_playtime :: "int option"
  median_playtime :: "int option"
  owners :: "string option"
  price :: "real option"
  release_year :: "int option"
  release_month :: "int option"
  release_quarter :: "int option"
  total_ratings :: "int option"
  positive_percentage :: real
  estimated_owners :: int
  estimated_revenue :: "real option"
  price_category :: "string option"
  popularity_tier :: "string option"
  quality_score :: "real option"
  years_since_release :: "int option"
  primary_genre :: string
  platform_count :: nat
  has_windows :: bool
  has_mac :: bool
  has_linux :: bool
  is_multiplatform :: bool
  is_multiplayer :: bool
  is_singleplayer :: bool
  has_achievements :: bool
  is_free :: bool

type_synonym table = "game list"


subsection \<open>Stage 1: \<open>clean_basic_data\<close>\<close>






subsection \<open>Stage 2: \<open>transform_dates\<close>\<close>







subsection \<open>Stage 3: \<open>create_calculated_metrics\<close>\<close>

text \<open>
  \<open>np.where(total > 0, positive / total * 100, 0)\<close>. Floating-point numbers are modelled
  as reals. Where \<open>total_ratings\<close> is present and positive, \<open>positive_ratings\<close> is present
  too, \<open>total_ratings\<close> being the sum just assigned.
\<close>

definition positive_percentage_of :: "int option \<Rightarrow> int option \<Rightarrow> real" where
  "positive_percentage_of pos tot =
     (if gt_cell tot 0
      then (case (pos, tot) of
              (Some p, Some t) \<Rightarrow> (real_of_int p / real_of_int t) * 100
            | _ \<Rightarrow> 0)
      else 0)"

definition price_bins :: "edge list" where
  "price_bins = [Fin 0, Fin 5, Fin 15, Fin 30, Fin 60, PInf]"

definition price_labels :: "string list" where
  "price_labels = [''Free/Cheap'', ''Budget'', ''Standard'', ''Premium'', ''AAA'']"

definition popularity_bins :: "edge list" where
  "popularity_bins = [Fin 0, Fin 50000, Fin 500000, Fin 2000000, Fin 10000000, PInf]"

definition popularity_labels :: "string list" where
  "popularity_labels = [''Niche'', ''Indie'', ''Popular'', ''Hit'', ''Blockbuster'']"

text \<open>
  The quality score of a row, given the column maximum \<open>mx\<close> of \<open>average_playtime\<close>.
  \<open>None\<close> stands for a result that is not a finite number: \<open>log1p\<close> is finite above
  \<open>-1\<close> only, and the quotient is finite only when \<open>log1p(mx)\<close> is not zero. The
  playtime \<open>a\<close> of a row is at most \<open>mx\<close>.
\<close>

definition quality_score_of :: "real \<Rightarrow> int option \<Rightarrow> int option \<Rightarrow> real option" where
  "quality_score_of pct avg mx =
     (case (avg, mx) of
        (Some a, Some m) \<Rightarrow>
          if -1 < a \<and> -1 < m \<and> m \<noteq> 0
          then Some (((pct / 100) * 0.7
                      + (ln (1 + real_of_int a) / ln (1 + real_of_int m)) * 0.3) * 100)
          else None
      | _ \<Rightarrow> None)"

definition sub_cell :: "int \<Rightarrow> int option \<Rightarrow> int option" where
  "sub_cell c x = (case x of None \<Rightarrow> None | Some v \<Rightarrow> Some (c - v))"

text \<open>
  The columns of one row, given the parsed owners value \<open>eo\<close> of the row, the column
  maximum \<open>mx\<close> and the current year \<open>now\<close> (\<open>datetime.now().year\<close>).
\<close>

definition metrics_row :: "int \<Rightarrow> int option \<Rightarrow> game \<Rightarrow> int \<Rightarrow> game" where
  "metrics_row now mx r eo =
     (let r = r\<lparr> total_ratings := add_cell (positive_ratings r) (negative_ratings r) \<rparr>;
          r = r\<lparr> positive_percentage :=
                   positive_percentage_of (positive_ratings r) (total_ratings r) \<rparr>;
          r = r\<lparr> estimated_owners := eo \<rparr>;
          r = r\<lparr> estimated_revenue :=
                   mul_cell (Some (real_of_int (estimated_owners r))) (price r) \<rparr>;
          r = r\<lparr> price_category := cut price_bins price_labels True (price r) \<rparr>;
          r = r\<lparr> popularity_tier :=
                   cut popularity_bins popularity_labels True
                     (Some (real_of_int (estimated_owners r))) \<rparr>;
          r = r\<lparr> quality_score :=
                   quality_score_of (positive_percentage r) (average_playtime r) mx \<rparr>
      in r\<lparr> years_since_release := sub_cell now (release_year r) \<rparr>)"

text \<open>\<open>Series.apply(f)\<close> for an \<open>f\<close> that may raise: the first raise ends the call.\<close>

fun apply_raising :: "('a \<Rightarrow> exn + 'b) \<Rightarrow> 'a list \<Rightarrow> exn + 'b list" where
  "apply_raising f [] = Inr []"
| "apply_raising f (x # xs) =
     (case f x of
        Inl e \<Rightarrow> Inl e
      | Inr y \<Rightarrow> (case apply_raising f xs of Inl e \<Rightarrow> Inl e | Inr ys \<Rightarrow> Inr (y # ys)))"

definition create_calculated_metrics :: "int \<Rightarrow> table \<Rightarrow> exn + table" where
  "create_calculated_metrics now df =
     (case apply_raising parse_owners_range (map owners df) of
        Inl e \<Rightarrow> Inl e
      | Inr eos \<Rightarrow>
          Inr (map (\<lambda>(r, eo). metrics_row now (series_max (map average_playtime df)) r eo)
                 (zip df eos)))"

subsection \<open>Stage 4: \<open>process_categorical_data\<close>\<close>



subsection \<open>Stage 5: \<open>apply_business_rules\<close>\<close>

definition apply_business_rules :: "table \<Rightarrow> table" where
  "apply_business_rules df =
     loc df
       (mask_and
          (mask_and
             (mask_and (map (\<lambda>r. notna (name r)) df)
                       (map (\<lambda>r. ne_cell (name r) ''Unknown'') df))
             (map (\<lambda>r. ne_cell (name r) []) df))
          (map (\<lambda>r. ge_cell (total_ratings r) 10) df))"

subsection \<open>The five stages in sequence\<close>


section \<open>The pipeline driver\<close>


















section \<open>The dashboard filters\<close>

text \<open>
  The dictionary built by \<open>create_sidebar_filters\<close>. The keys \<open>price_category\<close> and
  \<open>platforms\<close> are the fields \<open>sel_price_category\<close> and \<open>sel_platforms\<close> here, the
  table having columns of those names.
\<close>

record filters =
  year_range :: "int \<times> int"
  genre :: string
  sel_price_category :: string
  sel_platforms :: "string list"
  min_rating :: int

definition apply_filters :: "table \<Rightarrow> filters \<Rightarrow> table" where
  "apply_filters df flt =
     (let filtered_df = df;
          filtered_df =
            loc filtered_df
              (mask_and
                 (map (\<lambda>r. ge_cell (release_year r) (fst (year_range flt))) filtered_df)
                 (map (\<lambda>r. le_cell (release_year r) (snd (year_range flt))) filtered_df));
          filtered_df =
            (if genre flt \<noteq> ''Todos''
             then loc filtered_df (map (\<lambda>r. primary_genre r = genre flt) filtered_df)
             else filtered_df);
          filtered_df =
            (if sel_price_category flt \<noteq> ''Todas''
             then loc filtered_df
                    (map (\<lambda>r. eq_cell (price_category r) (sel_price_category flt)) filtered_df)
             else filtered_df);
          platform_filters = [];
          platform_filters =
            (if ''Windows'' \<in> set (sel_platforms flt)
             then platform_filters @ [map (\<lambda>r. has_windows r = True) filtered_df]
             else platform_filters);
          platform_filters =
            (if ''Mac'' \<in> set (sel_platforms flt)
             then platform_filters @ [map (\<lambda>r. has_mac r = True) filtered_df]
             else platform_filters);
          platform_filters =
            (if ''Linux'' \<in> set (sel_platforms flt)
             then platform_filters @ [map (\<lambda>r. has_linux r = True) filtered_df]
             else platform_filters);
          filtered_df =
            (case platform_filters of
               [] \<Rightarrow> filtered_df
             | pf # pfs \<Rightarrow> loc filtered_df (foldl mask_or pf pfs))
      in loc filtered_df
           (map (\<lambda>r. real_of_int (min_rating flt) \<le> positive_percentage r) filtered_df))"

text \<open>
  The filter conditions as the dashboard's contract words them. A row supports a
  platform name when the name is one of the three and the row has that flag.
\<close>

definition year_ok :: "filters \<Rightarrow> game \<Rightarrow> bool" where
  "year_ok flt r =
     (case release_year r of
        None \<Rightarrow> False
      | Some y \<Rightarrow> fst (year_range flt) \<le> y \<and> y \<le> snd (year_range flt))"

definition genre_ok :: "filters \<Rightarrow> game \<Rightarrow> bool" where
  "genre_ok flt r = (genre flt = ''Todos'' \<or> primary_genre r = genre flt)"

definition price_category_ok :: "filters \<Rightarrow> game \<Rightarrow> bool" where
  "price_category_ok flt r =
     (sel_price_category flt = ''Todas'' \<or> price_category r = Some (sel_price_category flt))"

definition rating_ok :: "filters \<Rightarrow> game \<Rightarrow> bool" where
  "rating_ok flt r = (real_of_int (min_rating flt) \<le> positive_percentage r)"

definition supports :: "game \<Rightarrow> string \<Rightarrow> bool" where
  "supports r pl =
     ((pl = ''Windows'' \<and> has_windows r) \<or> (pl = ''Mac'' \<and> has_mac r)
      \<or> (pl = ''Linux'' \<and> has_linux r))"

definition platform_filter_active :: "filters \<Rightarrow> bool" where
  "platform_filter_active flt =
     list_ex (\<lambda>pl. pl = ''Windows'' \<or> pl = ''Mac'' \<or> pl = ''Linux'') (sel_platforms flt)"

definition platform_ok :: "filters \<Rightarrow> game \<Rightarrow> bool" where
  "platform_ok flt r =
     (\<not> platform_filter_active flt \<or> list_ex (supports r) (sel_platforms flt))"

section \<open>Contract wording\<close>

text \<open>
  An integer text as the language reference words it: optional padding at both ends, an
  optional sign, then groups of decimal digits separated by single underscores, with at
  most \<open>max_str_digits\<close> digits in all. Its value is that of its digits; \<open>None\<close> means
  that the text is not an integer text. What may follow a first digit is a possibly empty
  run of digits and then underscore-separated groups of digits (\<open>tail_ok\<close>).
\<close>

definition tail_ok :: "string \<Rightarrow> bool" where
  "tail_ok s =
     (case split_on CHR ''_'' s of
        [] \<Rightarrow> False
      | p # ps \<Rightarrow> list_all is_digit p \<and> list_all all_digits ps)"

definition int_text :: "string \<Rightarrow> int option" where
  "int_text s =
     (let t = int_strip s;
          signed = (take 1 t = ''+'' \<or> take 1 t = ''-'');
          body = (if signed then drop 1 t else t);
          digits = filter is_digit body
      in if list_all all_digits (split_on CHR ''_'' body) \<and> length digits \<le> max_str_digits
         then Some ((if take 1 t = ''-'' then - 1 else 1) * int (dec_value digits))
         else None)"

text \<open>
  The owners parse as the contract words it. The cell, with surrounding whitespace
  removed, is one integer text, or two integer texts separated by a hyphen; the thousands
  commas of each are ignored. The parse is the integer, or the floor of the midpoint of
  the two; \<open>None\<close> is a parse failure. The estimate is 0 for a missing cell, for the
  placeholder \<open>Unknown\<close> and for a parse failure.
\<close>

fun decomma :: "string \<Rightarrow> string" where
  "decomma [] = []"
| "decomma (c # cs) = (if c = CHR '','' then decomma cs else c # decomma cs)"

definition owners_parse :: "string \<Rightarrow> int option" where
  "owners_parse s =
     (case split_on CHR ''-'' (strip s) of
        [a] \<Rightarrow> int_text (decomma a)
      | [a, b] \<Rightarrow>
          (case (int_text (decomma a), int_text (decomma b)) of
             (Some lo, Some hi) \<Rightarrow> Some ((lo + hi) div 2)
           | _ \<Rightarrow> None)
      | _ \<Rightarrow> None)"

definition owners_midpoint :: "string option \<Rightarrow> int" where
  "owners_midpoint x =
     (case x of
        None \<Rightarrow> 0
      | Some s \<Rightarrow>
          if s = ''Unknown'' then 0
          else (case owners_parse s of None \<Rightarrow> 0 | Some n \<Rightarrow> n))"




text \<open>
  The value \<open>_parse_owners_range\<close> gives for a cell, as a plain integer; the parser
  returns for every cell (shown below), so the exception branch is never taken.
\<close>

definition owners_value :: "string option \<Rightarrow> int" where
  "owners_value x = (case parse_owners_range x of Inl e \<Rightarrow> 0 | Inr n \<Rightarrow> n)"

text \<open>
  The business rule as the contract words it: the name is present, not empty and not
  the placeholder, and there are at least ten ratings.
\<close>

definition retained :: "game \<Rightarrow> bool" where
  "retained r \<longleftrightarrow>
     name r \<noteq> None \<and> name r \<noteq> Some [] \<and> name r \<noteq> Some ''Unknown''
     \<and> (case total_ratings r of None \<Rightarrow> False | Some t \<Rightarrow> 10 \<le> t)"

text \<open>
  The price bins as the contract words them, for a price that is present: each bin
  includes its upper boundary; a negative price has no category.
\<close>

definition price_bin :: "real \<Rightarrow> string option" where
  "price_bin p =
     (if p < 0 then None
      else if p \<le> 5 then Some ''Free/Cheap''
      else if p \<le> 15 then Some ''Budget''
      else if p \<le> 30 then Some ''Standard''
      else if p \<le> 60 then Some ''Premium''
      else Some ''AAA'')"











subsection \<open>Fixtures\<close>


definition fixture_row :: game where
  "fixture_row =
     \<lparr> appid = Some 10,
       name = Some ''Counter-Strike'',
       release_date = Raw ''2012-08-21'',
       english = Some 1,
       developer = Some ''Valve'',
       publisher = Some ''Valve'',
       platforms = Some ''windows;mac;linux'',
       required_age = Some 0,
       categories = Some ''Multi-player;Online Multi-Player'',
       genres = Some ''Action;Free to Play'',
       steamspy_tags = Some ''Action;FPS;Multiplayer'',
       achievements = Some 167,
       positive_ratings = Some 90,
       negative_ratings = Some 10,
       average_playtime = Some 100,
       median_playtime = Some 50,
       owners = Some ''1000000-2000000'',
       price = Some 5,
       release_year = None,
       release_month = None,
       release_quarter = None,
       total_ratings = None,
       positive_percentage = 0,
       estimated_owners = 0,
       estimated_revenue = None,
       price_category = None,
       popularity_tier = None,
       quality_score = None,
       years_since_release = None,
       primary_genre = [],
       platform_count = 0,
       has_windows = False,
       has_mac = False,
       has_linux = False,
       is_multiplatform = False,
       is_multiplayer = False,
       is_singleplayer = False,
       has_achievements = False,
       is_free = False \<rparr>"


text \<open>
  A filter selection with no platform chosen, and a row of the stored table that
  supports no platform at all.
\<close>

definition fixture_filters :: filters where
  "fixture_filters =
     \<lparr> year_range = (2010, 2020), genre = ''Todos'', sel_price_category = ''Todas'',
       sel_platforms = [], min_rating = 50 \<rparr>"

definition fixture_stored_row :: game where
  "fixture_stored_row =
     fixture_row\<lparr> release_year := Some 2012, positive_percentage := 90,
                  price_category := Some ''Free/Cheap'', primary_genre := ''Action'' \<rparr>"




section \<open>Verified properties\<close>

subsection \<open>The owners-range parser never raises and returns the midpoint\<close>

lemma py_isspace_digit: "is_digit c \<Longrightarrow> \<not> py_isspace c"
  by (auto simp: is_digit_def py_isspace_def Let_def)

lemma dropWhile_hd_id: "xs \<noteq> [] \<Longrightarrow> \<not> P (hd xs) \<Longrightarrow> dropWhile P xs = xs"
  by (cases xs) auto

lemma strip_id: "s \<noteq> [] \<Longrightarrow> \<not> py_isspace (hd s) \<Longrightarrow> \<not> py_isspace (last s) \<Longrightarrow> strip s = s"
  by (simp add: strip_def dropWhile_hd_id hd_rev)

lemma int_isspace_digit: "is_digit c \<Longrightarrow> \<not> int_isspace c"
  by (auto simp: is_digit_def int_isspace_def Let_def)

lemma set_int_strip: "set (int_strip s) \<subseteq> set s"
proof -
  have "set (dropWhile int_isspace (rev (dropWhile int_isspace s))) \<subseteq> set (rev (dropWhile int_isspace s))"
    by (rule set_dropWhileD[THEN subsetI]) 
  also have "\<dots> \<subseteq> set s" using set_dropWhileD by fastforce
  finally show ?thesis by (simp add: int_strip_def)
qed

lemma int_strip_id:
  "s \<noteq> [] \<Longrightarrow> \<not> int_isspace (hd s) \<Longrightarrow> \<not> int_isspace (last s) \<Longrightarrow> int_strip s = s"
  by (simp add: int_strip_def dropWhile_hd_id hd_rev)

lemma split_on_nonempty: "split_on c s \<noteq> []"
  by (induction s) (auto split: list.splits)

lemma split_on_pieces: "p \<in> set (split_on c s) \<Longrightarrow> c \<notin> set p"
  by (induction s arbitrary: p) (auto split: list.splits if_splits)

lemma split_on_none: "c \<notin> set s \<Longrightarrow> split_on c s = [s]"
  by (induction s) auto

lemma split_on_append: "c \<notin> set a \<Longrightarrow> split_on c (a @ c # b) = a # split_on c b"
  by (induction a) auto

lemma parse_digits_all: "list_all is_digit s \<Longrightarrow> parse_digits acc s = Some (foldl (\<lambda>n c. 10 * n + digit_val c) acc s)"
  by (induction acc s rule: parse_digits.induct) auto

lemma filter_digits_id: "list_all is_digit s \<Longrightarrow> filter is_digit s = s"
  by (induction s) auto

lemma parse_unsigned_all:
  "all_digits s \<Longrightarrow> length s \<le> max_str_digits \<Longrightarrow> parse_unsigned s = Some (dec_value s)"
  using filter_digits_id[of s]
  by (cases s) (auto simp: all_digits_def parse_unsigned_def dec_value_def parse_digits_all)

lemma py_int_nonneg: "py_int s = Some n \<Longrightarrow> CHR ''-'' \<notin> set s \<Longrightarrow> 0 \<le> n"
  using set_int_strip[of s]
  by (auto simp: py_int_def split: list.splits if_splits)

lemma remove_char_set: "set (remove_char c s) \<subseteq> set s"
  by (auto simp: remove_char_def)

lemma int_or_raise_err: "int_or_raise s = Inl e \<Longrightarrow> e = ValueError"
  by (auto simp: int_or_raise_def split: option.splits)

lemma int_or_raise_nonneg: "int_or_raise s = Inr n \<Longrightarrow> CHR ''-'' \<notin> set s \<Longrightarrow> 0 \<le> n"
  by (auto simp: int_or_raise_def py_int_nonneg split: option.splits)

lemma parse_owners_body_hyphen:
  "CHR ''-'' \<in> set (strip s) \<Longrightarrow> split_on CHR ''-'' (strip s) = [a, b] \<Longrightarrow>
   parse_owners_body s =
     (case int_or_raise (remove_char CHR '','' a) of
        Inl e \<Rightarrow> Inl e
      | Inr lo \<Rightarrow> (case int_or_raise (remove_char CHR '','' b) of
                     Inl e \<Rightarrow> Inl e
                   | Inr hi \<Rightarrow> Inr ((lo + hi) div 2)))"
  by (simp add: parse_owners_body_def)

lemma parse_owners_body_unpack:
  "CHR ''-'' \<in> set (strip s) \<Longrightarrow> \<nexists>a b. split_on CHR ''-'' (strip s) = [a, b] \<Longrightarrow>
   parse_owners_body s = Inl ValueError"
  by (simp add: parse_owners_body_def split: list.splits)

lemma parse_owners_body_plain:
  "CHR ''-'' \<notin> set (strip s) \<Longrightarrow>
   parse_owners_body s = int_or_raise (remove_char CHR '','' (strip s))"
  by (simp add: parse_owners_body_def)

lemma parse_owners_body_err: 
  assumes "parse_owners_body s = Inl e" shows "e = ValueError"
proof (cases "CHR ''-'' \<in> set (strip s)")
  case False
  with assms show ?thesis by (simp add: parse_owners_body_plain int_or_raise_err)
next
  case True
  show ?thesis
  proof (cases "\<exists>a b. split_on CHR ''-'' (strip s) = [a, b]")
    case False
    with True assms show ?thesis by (simp add: parse_owners_body_unpack)
  next
    case True
    then obtain a b where "split_on CHR ''-'' (strip s) = [a, b]" by blast
    with \<open>CHR ''-'' \<in> set (strip s)\<close> assms show ?thesis
      by (auto simp: parse_owners_body_hyphen dest: int_or_raise_err split: sum.splits)
  qed
qed

lemma parse_owners_body_nonneg: 
  assumes "parse_owners_body s = Inr n" shows "0 \<le> n"
proof (cases "CHR ''-'' \<in> set (strip s)")
  case False
  then have "CHR ''-'' \<notin> set (remove_char CHR '','' (strip s))" using remove_char_set by fastforce
  with assms False show ?thesis
    by (auto simp: parse_owners_body_plain dest: int_or_raise_nonneg)
next
  case True
  have "\<exists>a b. split_on CHR ''-'' (strip s) = [a, b]"
    using True assms parse_owners_body_unpack[of s] by auto
  then obtain a b where sp: "split_on CHR ''-'' (strip s) = [a, b]" by blast
  with True assms obtain lo hi where
         lo: "int_or_raise (remove_char CHR '','' a) = Inr lo"
     and hi: "int_or_raise (remove_char CHR '','' b) = Inr hi"
     and n: "n = (lo + hi) div 2"
    by (auto simp: parse_owners_body_hyphen split: sum.splits)
  from sp have "CHR ''-'' \<notin> set a" "CHR ''-'' \<notin> set b"
    using split_on_pieces[of a "CHR ''-''" "strip s"] split_on_pieces[of b "CHR ''-''" "strip s"] by auto
  then have "CHR ''-'' \<notin> set (remove_char CHR '','' a)" "CHR ''-'' \<notin> set (remove_char CHR '','' b)"
    using remove_char_set by fastforce+
  with lo hi have "0 \<le> lo" "0 \<le> hi" by (auto dest: int_or_raise_nonneg)
  with n show ?thesis by simp
qed

lemma parse_owners_range_returns: "\<exists>n. parse_owners_range x = Inr n \<and> 0 \<le> n"
proof (cases x)
  case None then show ?thesis by (simp add: parse_owners_range_def)
next
  case (Some s)
  show ?thesis
  proof (cases "parse_owners_body s")
    case (Inl e)
    then have "e = ValueError" by (rule parse_owners_body_err)
    with Inl Some show ?thesis by (simp add: parse_owners_range_def)
  next
    case (Inr n)
    then have "0 \<le> n" by (rule parse_owners_body_nonneg)
    with Inr Some show ?thesis by (simp add: parse_owners_range_def)
  qed
qed

lemma digit_not_punct: "is_digit c \<Longrightarrow> c \<noteq> CHR ''-'' \<and> c \<noteq> CHR '','' \<and> c \<noteq> CHR ''+''"
  by (auto simp: is_digit_def)

lemma all_digits_set: "all_digits s \<Longrightarrow> CHR ''-'' \<notin> set s \<and> CHR '','' \<notin> set s"
  using digit_not_punct by (auto simp: all_digits_def list_all_iff)

lemma remove_char_id: "c \<notin> set s \<Longrightarrow> remove_char c s = s"
  by (induction s) (auto simp: remove_char_def)

lemma all_digits_strip: "all_digits s \<Longrightarrow> strip s = s"
  by (rule strip_id) (auto simp: all_digits_def list_all_iff intro!: py_isspace_digit)

lemma all_digits_int_strip: "all_digits s \<Longrightarrow> int_strip s = s"
  by (rule int_strip_id) (auto simp: all_digits_def list_all_iff intro!: int_isspace_digit)

lemma py_int_digits:
  "all_digits s \<Longrightarrow> length s \<le> max_str_digits \<Longrightarrow> py_int s = Some (int (dec_value s))"
  using digit_not_punct[of "hd s"] parse_unsigned_all[of s]
  by (cases s) (auto simp: py_int_def all_digits_int_strip all_digits_def)

lemma parse_owners_body_range:
  assumes a: "all_digits a" and b: "all_digits b"
      and la: "length a \<le> max_str_digits" and lb: "length b \<le> max_str_digits"
  shows "parse_owners_body (a @ ''-'' @ b) = Inr ((int (dec_value a) + int (dec_value b)) div 2)"
proof -
  let ?s = "a @ CHR ''-'' # b"
  have ne: "?s \<noteq> []" by simp
  have h: "\<not> py_isspace (hd ?s)"
    using a by (cases a) (auto simp: all_digits_def dest: py_isspace_digit)
  have l: "\<not> py_isspace (last ?s)"
    using b by (auto simp: all_digits_def list_all_iff dest!: py_isspace_digit)
  have st: "strip ?s = ?s" using ne h l by (rule strip_id)
  have sp: "split_on CHR ''-'' ?s = [a, b]"
    using all_digits_set[OF a] all_digits_set[OF b] by (simp add: split_on_append split_on_none)
  have mem: "CHR ''-'' \<in> set (strip ?s)" unfolding st by simp
  have "parse_owners_body ?s = Inr ((int (dec_value a) + int (dec_value b)) div 2)"
    using all_digits_set[OF a] all_digits_set[OF b] sp
    by (simp add: parse_owners_body_hyphen[OF mem, of a b] st remove_char_id int_or_raise_def
          py_int_digits[OF a la] py_int_digits[OF b lb])
  then show ?thesis by simp
qed

subsubsection \<open>The parser of \<open>int()\<close> against the wording of an integer text\<close>

lemma digit_not_us: "is_digit c \<Longrightarrow> c \<noteq> CHR ''_''"
  by (auto simp: is_digit_def)

lemma tail_ok_digit: "is_digit c \<Longrightarrow> tail_ok (c # s) = tail_ok s"
  using split_on_nonempty[of "CHR ''_''" s]
  by (auto simp: tail_ok_def digit_not_us split: list.splits)

lemma groups_digit: "is_digit c \<Longrightarrow> list_all all_digits (split_on CHR ''_'' (c # s)) = tail_ok s"
  using split_on_nonempty[of "CHR ''_''" s]
  by (auto simp: tail_ok_def digit_not_us all_digits_def split: list.splits)

lemma groups_nondigit: "\<not> is_digit c \<Longrightarrow> \<not> list_all all_digits (split_on CHR ''_'' (c # s))"
  using split_on_nonempty[of "CHR ''_''" s]
  by (auto simp: all_digits_def split: list.splits)

lemma tail_ok_us: "tail_ok (CHR ''_'' # s) = list_all all_digits (split_on CHR ''_'' s)"
  by (simp add: tail_ok_def)

lemma tail_ok_other: "\<not> is_digit c \<Longrightarrow> c \<noteq> CHR ''_'' \<Longrightarrow> \<not> tail_ok (c # s)"
  using split_on_nonempty[of "CHR ''_''" s]
  by (auto simp: tail_ok_def split: list.splits)

lemma parse_digits_groups:
  "parse_digits acc s =
     (if tail_ok s then Some (foldl (\<lambda>n c. 10 * n + digit_val c) acc (filter is_digit s)) else None)"
proof (induction acc s rule: parse_digits.induct)
  case (1 acc)
  show ?case by (simp add: tail_ok_def)
next
  case (2 acc c)
  show ?case by (auto simp: tail_ok_def all_digits_def is_digit_def)
next
  case (3 acc c d ds)
  show ?case
  proof (cases "is_digit c")
    case True
    then show ?thesis using 3 by (simp add: tail_ok_digit)
  next
    case False
    show ?thesis
    proof (cases "c = CHR ''_''")
      case c: True
      show ?thesis
      proof (cases "is_digit d")
        case True
        then show ?thesis using 3 False c
          by (simp add: tail_ok_us groups_digit digit_not_us del: split_on.simps)
      next
        case d: False
        then show ?thesis using False c
          by (simp add: tail_ok_us groups_nondigit del: split_on.simps)
      qed
    next
      case c: False
      then show ?thesis using False by (simp add: tail_ok_other)
    qed
  qed
qed

lemma parse_unsigned_groups:
  "parse_unsigned s =
     (if list_all all_digits (split_on CHR ''_'' s) \<and> length (filter is_digit s) \<le> max_str_digits
      then Some (dec_value (filter is_digit s)) else None)"
proof (cases s)
  case Nil
  then show ?thesis by (simp add: parse_unsigned_def all_digits_def)
next
  case (Cons c cs)
  show ?thesis
  proof (cases "is_digit c")
    case True
    then show ?thesis unfolding Cons
      by (simp add: parse_unsigned_def parse_digits_groups groups_digit dec_value_def not_less
            del: split_on.simps)
  next
    case False
    then show ?thesis unfolding Cons
      by (simp add: parse_unsigned_def groups_nondigit del: split_on.simps)
  qed
qed

lemma py_int_text: "py_int s = int_text s"
proof (cases "int_strip s")
  case Nil
  then show ?thesis by (simp add: py_int_def int_text_def all_digits_def)
next
  case (Cons c cs)
  then show ?thesis
    by (auto simp: py_int_def int_text_def parse_unsigned_groups Let_def)
qed

subsubsection \<open>The parser against the contract's wording\<close>

lemma decomma_remove_char: "decomma s = remove_char CHR '','' s"
  by (induction s) (auto simp: remove_char_def)

lemma split_on_single: "(split_on c s = [a]) = (c \<notin> set s \<and> a = s)"
proof (induction s arbitrary: a)
  case Nil
  show ?case by auto
next
  case (Cons x xs)
  show ?case
  proof (cases "x = c")
    case True
    then show ?thesis using split_on_nonempty[of c xs] by simp
  next
    case False
    obtain p ps where sp: "split_on c xs = p # ps"
      using split_on_nonempty[of c xs] by (cases "split_on c xs") auto
    show ?thesis
    proof (cases ps)
      case Nil
      with sp have "c \<notin> set xs \<and> p = xs" using Cons.IH[of p] by simp
      with False sp Nil show ?thesis by auto
    next
      case (Cons q qs)
      with sp have "\<not> (c \<notin> set xs)" using Cons.IH[of xs] by auto
      with False sp Cons show ?thesis by auto
    qed
  qed
qed

lemma int_or_raise_text:
  "int_or_raise (remove_char CHR '','' a)
     = (case int_text (decomma a) of None \<Rightarrow> Inl ValueError | Some n \<Rightarrow> Inr n)"
  by (simp add: int_or_raise_def py_int_text decomma_remove_char)

lemma parse_owners_body_parse:
  "parse_owners_body s = (case owners_parse s of None \<Rightarrow> Inl ValueError | Some n \<Rightarrow> Inr n)"
proof (cases "CHR ''-'' \<in> set (strip s)")
  case False
  then have "split_on CHR ''-'' (strip s) = [strip s]" by (rule split_on_none)
  with False show ?thesis
    by (simp add: parse_owners_body_plain owners_parse_def int_or_raise_text)
next
  case True
  show ?thesis
  proof (cases "\<exists>a b. split_on CHR ''-'' (strip s) = [a, b]")
    case ex: True
    then obtain a b where sp: "split_on CHR ''-'' (strip s) = [a, b]" by blast
    show ?thesis
      by (simp add: parse_owners_body_hyphen[OF True sp] owners_parse_def sp int_or_raise_text
               split: option.splits)
  next
    case nex: False
    have ns: "\<nexists>a. split_on CHR ''-'' (strip s) = [a]"
      using True by (simp add: split_on_single)
    have "owners_parse s = None"
      using nex ns split_on_nonempty[of "CHR ''-''" "strip s"]
      by (auto simp: owners_parse_def split: list.splits)
    with nex True show ?thesis by (simp add: parse_owners_body_unpack)
  qed
qed

lemma parse_owners_range_midpoint: "parse_owners_range x = Inr (owners_midpoint x)"
  by (cases x)
     (auto simp: parse_owners_range_def owners_midpoint_def parse_owners_body_parse
           split: option.splits)

lemma owners_parse_long:
  assumes a: "all_digits a" and l: "max_str_digits < length a"
  shows "owners_parse a = None"
proof -
  have c: "CHR ''-'' \<notin> set a \<and> CHR '','' \<notin> set a" using a by (rule all_digits_set)
  have d: "decomma a = a" using c by (simp add: decomma_remove_char remove_char_id)
  have f: "filter is_digit a = a" using a by (simp add: all_digits_def filter_digits_id)
  have t: "take 1 a \<noteq> ''+'' \<and> take 1 a \<noteq> ''-''"
    using a digit_not_punct[of "hd a"] by (cases a) (auto simp: all_digits_def)
  have i: "int_text a = None"
    using l t by (simp add: int_text_def all_digits_int_strip[OF a] Let_def f)
  show ?thesis
    using c by (simp add: owners_parse_def all_digits_strip[OF a] split_on_none d i)
qed

text \<open>
  C5. For every input, a string or a missing value, \<open>_parse_owners_range\<close> returns
  without raising, and what it returns is the estimate as the contract words it: 0 for a
  missing cell, for the text \<open>Unknown\<close> and for every text that does not parse; the
  integer for a single integer text; and the floor of the midpoint \<open>(a + b) div 2\<close> for
  two integer texts separated by a hyphen, thousands commas and padding being ignored.
  The result is never negative. In particular a range of two strings of decimal digits
  within the interpreter's digit limit gives the floor of the midpoint of their values
  (\<open>1000000-2000000\<close> gives 1500000), and a string of more digits than the limit gives 0.
\<close>

theorem parse_owners_range_total_midpoint:
  "parse_owners_range x = Inr (owners_midpoint x)
   \<and> 0 \<le> owners_midpoint x
   \<and> (all_digits a \<and> all_digits b \<and> length a \<le> max_str_digits \<and> length b \<le> max_str_digits \<longrightarrow>
        parse_owners_range (Some (a @ ''-'' @ b))
          = Inr ((int (dec_value a) + int (dec_value b)) div 2))
   \<and> (owners_parse s = None \<longrightarrow> parse_owners_range (Some s) = Inr 0)
   \<and> (all_digits d \<and> max_str_digits < length d \<longrightarrow> parse_owners_range (Some d) = Inr 0)
   \<and> parse_owners_range None = Inr 0
   \<and> parse_owners_range (Some ''Unknown'') = Inr 0
   \<and> parse_owners_range (Some ''1000000-2000000'') = Inr 1500000
   \<and> parse_owners_range (Some ''1,000-2,000'') = Inr 1500
   \<and> parse_owners_range (Some '' 10 - 20 '') = Inr 15
   \<and> parse_owners_range (Some ''1_000-2_001'') = Inr 1500
   \<and> parse_owners_range (Some ''20000'') = Inr 20000
   \<and> parse_owners_range (Some ''abc'') = Inr 0
   \<and> parse_owners_range (Some ''1-2-3'') = Inr 0
   \<and> parse_owners_range (Some ''-5'') = Inr 0
   \<and> parse_owners_range (Some ''20000.0'') = Inr 0
   \<and> parse_owners_range (Some (''10'' @ [CHR 0x1C] @ ''-20'')) = Inr 0
   \<and> parse_owners_range (Some []) = Inr 0"
proof -
  note ev = parse_owners_range_def parse_owners_body_def strip_def py_isspace_def
    remove_char_def int_or_raise_def py_int_def int_strip_def int_isspace_def
    parse_unsigned_def max_str_digits_def is_digit_def digit_val_def Let_def
  have c1: "parse_owners_range x = Inr (owners_midpoint x)"
    by (rule parse_owners_range_midpoint)
  have c2: "0 \<le> owners_midpoint x"
    using parse_owners_range_returns[of x] c1 by auto
  have c3: "parse_owners_range (Some (a @ ''-'' @ b))
              = Inr ((int (dec_value a) + int (dec_value b)) div 2)"
    if ab: "all_digits a \<and> all_digits b \<and> length a \<le> max_str_digits \<and> length b \<le> max_str_digits"
  proof -
    have "a @ ''-'' @ b \<noteq> ''Unknown''"
    proof
      assume eq: "a @ ''-'' @ b = ''Unknown''"
      have m: "CHR ''-'' \<in> set (a @ ''-'' @ b)" by simp
      show False using m unfolding eq by simp
    qed
    then show ?thesis
      using parse_owners_body_range[of a b] ab by (simp add: parse_owners_range_def)
  qed
  have c4: "parse_owners_range (Some s) = Inr 0" if "owners_parse s = None"
    using that by (simp add: parse_owners_range_midpoint owners_midpoint_def)
  have c5: "parse_owners_range (Some d) = Inr 0" if "all_digits d \<and> max_str_digits < length d"
    using that owners_parse_long[of d] by (simp add: parse_owners_range_midpoint owners_midpoint_def)
  have v0: "parse_owners_range None = Inr 0" by (simp add: parse_owners_range_def)
  have v1: "parse_owners_range (Some ''Unknown'') = Inr 0" by (simp add: parse_owners_range_def)
  have v2: "parse_owners_range (Some ''1000000-2000000'') = Inr 1500000" by (simp add: ev)
  have v3: "parse_owners_range (Some ''1,000-2,000'') = Inr 1500" by (simp add: ev)
  have v4: "parse_owners_range (Some '' 10 - 20 '') = Inr 15" by (simp add: ev)
  have v5: "parse_owners_range (Some ''1_000-2_001'') = Inr 1500" by (simp add: ev)
  have v6: "parse_owners_range (Some ''20000'') = Inr 20000" by (simp add: ev)
  have v7: "parse_owners_range (Some ''abc'') = Inr 0" by (simp add: ev)
  have v8: "parse_owners_range (Some ''1-2-3'') = Inr 0" by (simp add: ev)
  have v9: "parse_owners_range (Some ''-5'') = Inr 0" by (simp add: ev)
  have v10: "parse_owners_range (Some ''20000.0'') = Inr 0" by (simp add: ev)
  have v11: "parse_owners_range (Some (''10'' @ [CHR 0x1C] @ ''-20'')) = Inr 0" by (simp add: ev)
  have v12: "parse_owners_range (Some []) = Inr 0" by (simp add: ev)
  show ?thesis
    using c1 c2 c3 c4 c5 v0 v1 v2 v3 v4 v5 v6 v7 v8 v9 v10 v11 v12 by blast
qed

theorem parse_owners_range_total_midpoint_witness:
  "all_digits ''250'' \<and> all_digits ''751''
   \<and> length ''250'' \<le> max_str_digits \<and> length ''751'' \<le> max_str_digits
   \<and> parse_owners_range (Some ''250-751'') = Inr 500
   \<and> owners_midpoint (Some ''5,000 - 10,001'') = 7500
   \<and> parse_owners_range (Some ''5,000 - 10,001'') = Inr 7500
   \<and> owners_parse ''1e6-2e6'' = None
   \<and> parse_owners_range (Some ''1e6-2e6'') = Inr 0
   \<and> all_digits (replicate 4301 CHR ''7'')
   \<and> max_str_digits < length (replicate 4301 CHR ''7'')
   \<and> parse_owners_range (Some (replicate 4301 CHR ''7'')) = Inr 0"
proof -
  have d: "all_digits ''250'' \<and> all_digits ''751''
           \<and> length ''250'' \<le> max_str_digits \<and> length ''751'' \<le> max_str_digits"
    by (simp add: all_digits_def is_digit_def max_str_digits_def)
  have v: "dec_value ''250'' = 250" "dec_value ''751'' = 751"
    by (simp_all add: dec_value_def digit_val_def)
  have m: "owners_midpoint (Some ''5,000 - 10,001'') = 7500"
    by (simp add: owners_midpoint_def owners_parse_def strip_def py_isspace_def int_text_def
          int_strip_def int_isspace_def all_digits_def is_digit_def max_str_digits_def
          dec_value_def digit_val_def Let_def)
  have f: "owners_parse ''1e6-2e6'' = None"
    by (simp add: owners_parse_def strip_def py_isspace_def int_text_def
          int_strip_def int_isspace_def all_digits_def is_digit_def max_str_digits_def
          dec_value_def digit_val_def Let_def)
  have g: "all_digits (replicate 4301 CHR ''7'')
           \<and> max_str_digits < length (replicate 4301 CHR ''7'')"
    by (simp add: all_digits_def list_all_iff is_digit_def max_str_digits_def)
  have t: "parse_owners_range (Some (''250'' @ ''-'' @ ''751''))
             = Inr ((int (dec_value ''250'') + int (dec_value ''751'')) div 2)"
       and z: "parse_owners_range (Some ''1e6-2e6'') = Inr 0"
       and e: "parse_owners_range (Some ''5,000 - 10,001'') = Inr (owners_midpoint (Some ''5,000 - 10,001''))"
       and k: "parse_owners_range (Some (replicate 4301 CHR ''7'')) = Inr 0"
    using parse_owners_range_total_midpoint
            [of "Some ''5,000 - 10,001''" "''250''" "''751''" "''1e6-2e6''"
                "replicate 4301 CHR ''7''"] d f g
    by blast+
  have r: "parse_owners_range (Some ''250-751'') = Inr 500"
    using t unfolding v by simp
  show ?thesis
    using d m f z e g k r by simp
qed

subsection \<open>Boolean indexing is filtering\<close>

lemma loc_map: "loc df (map P df) = filter P df"
  by (induction df) (auto simp: loc_def)

lemma mask_and_map: "mask_and (map P df) (map Q df) = map (\<lambda>r. P r \<and> Q r) df"
  by (induction df) (auto simp: mask_and_def)

lemma mask_or_map: "mask_or (map P df) (map Q df) = map (\<lambda>r. P r \<or> Q r) df"
  by (induction df) (auto simp: mask_or_def)

lemma zip_map_self: "zip df (map f df) = map (\<lambda>x. (x, f x)) df"
  by (induction df) auto

subsection \<open>The metrics stage returns, row by row\<close>

lemma parse_owners_range_value: "parse_owners_range x = Inr (owners_value x)"
  using parse_owners_range_returns[of x] by (auto simp: owners_value_def)

lemma owners_value_fixture: "owners_value (Some ''1000000-2000000'') = 1500000"
  by (simp add: owners_value_def parse_owners_range_def parse_owners_body_def strip_def
        py_isspace_def remove_char_def int_or_raise_def py_int_def int_strip_def
        int_isspace_def parse_unsigned_def max_str_digits_def is_digit_def digit_val_def Let_def)

lemma apply_raising_map: "(\<And>x. f x = Inr (g x)) \<Longrightarrow> apply_raising f xs = Inr (map g xs)"
  by (induction xs) auto

lemma create_calculated_metrics_rows:
  "create_calculated_metrics now df =
     Inr (map (\<lambda>r. metrics_row now (series_max (map average_playtime df)) r
                     (owners_value (owners r))) df)"
proof -
  have "apply_raising parse_owners_range (map owners df) = Inr (map owners_value (map owners df))"
    by (rule apply_raising_map) (rule parse_owners_range_value)
  then show ?thesis
    by (simp add: create_calculated_metrics_def zip_map_self o_def)
qed

lemma apply_business_rules_filter: "apply_business_rules df = filter retained df"
proof -
  have "(\<lambda>r. ((notna (name r) \<and> ne_cell (name r) ''Unknown'') \<and> ne_cell (name r) [])
              \<and> ge_cell (total_ratings r) 10) = retained"
    by (auto simp: fun_eq_iff retained_def notna_def ne_cell_def ge_cell_def split: option.splits)
  then show ?thesis
    by (simp add: apply_business_rules_def mask_and_map loc_map)
qed

lemma cut_price: "cut price_bins price_labels True (Some p) = price_bin p"
  by (simp add: cut_def price_bins_def price_labels_def price_bin_def searchsorted_left_def)

lemma price_category_metrics_row:
  "price_category (metrics_row now mx r eo) = cut price_bins price_labels True (price r)"
  by (simp add: metrics_row_def)

subsection \<open>The business rule\<close>

text \<open>
  C8. \<open>apply_business_rules\<close> keeps exactly the rows whose name is present, not empty
  and not \<open>Unknown\<close> and whose \<open>total_ratings\<close> is at least 10, in their order. A row
  with \<open>total_ratings = 9\<close> is dropped; the same row with \<open>total_ratings = 10\<close> is kept
  whenever its name passes.
\<close>

theorem apply_business_rules_retained:
  "apply_business_rules df = filter retained df
   \<and> (r \<in> set (apply_business_rules df) \<longleftrightarrow> r \<in> set df \<and> retained r)
   \<and> apply_business_rules [r\<lparr>total_ratings := Some 9\<rparr>] = []
   \<and> (name r \<noteq> None \<and> name r \<noteq> Some [] \<and> name r \<noteq> Some ''Unknown'' \<longrightarrow>
        apply_business_rules [r\<lparr>total_ratings := Some 10\<rparr>] = [r\<lparr>total_ratings := Some 10\<rparr>])"
  by (simp add: apply_business_rules_filter retained_def)

theorem apply_business_rules_retained_witness:
  "name fixture_row \<noteq> None \<and> name fixture_row \<noteq> Some [] \<and> name fixture_row \<noteq> Some ''Unknown''
   \<and> apply_business_rules [fixture_row\<lparr>total_ratings := Some 9\<rparr>] = []
   \<and> apply_business_rules [fixture_row\<lparr>total_ratings := Some 10\<rparr>]
       = [fixture_row\<lparr>total_ratings := Some 10\<rparr>]"
proof -
  have n: "name fixture_row \<noteq> None \<and> name fixture_row \<noteq> Some []
           \<and> name fixture_row \<noteq> Some ''Unknown''"
    by (simp add: fixture_row_def)
  with apply_business_rules_retained [of "[]" fixture_row] show ?thesis by blast
qed

subsection \<open>Price categories\<close>

text \<open>
  C9. The \<open>price_category\<close> assigned by \<open>create_calculated_metrics\<close> puts a price in
  the bin whose upper boundary it does not exceed, the boundary itself included: 5.00 is
  \<open>Free/Cheap\<close> and 5.01 is \<open>Budget\<close>, 15 is \<open>Budget\<close>, 30 is \<open>Standard\<close>, 60 is
  \<open>Premium\<close>, and anything above 60 is \<open>AAA\<close>.
\<close>

theorem price_category_upper_inclusive:
  "(create_calculated_metrics now df = Inr out \<longrightarrow>
      map price_category out
        = map (\<lambda>r. case price r of None \<Rightarrow> None | Some p \<Rightarrow> price_bin p) df)
   \<and> price_bin 5 = Some ''Free/Cheap'' \<and> price_bin 5.01 = Some ''Budget''
   \<and> price_bin 15 = Some ''Budget'' \<and> price_bin 15.01 = Some ''Standard''
   \<and> price_bin 30 = Some ''Standard'' \<and> price_bin 30.01 = Some ''Premium''
   \<and> price_bin 60 = Some ''Premium'' \<and> price_bin 60.01 = Some ''AAA''"
proof -
  have row: "price_category (metrics_row now mx r eo)
               = (case price r of None \<Rightarrow> None | Some p \<Rightarrow> price_bin p)" for mx r eo
  proof (cases "price r")
    case None
    then show ?thesis by (simp add: price_category_metrics_row cut_def)
  next
    case (Some p)
    then show ?thesis by (simp add: price_category_metrics_row cut_price)
  qed
  have "map price_category out
          = map (\<lambda>r. case price r of None \<Rightarrow> None | Some p \<Rightarrow> price_bin p) df"
    if "create_calculated_metrics now df = Inr out"
    using that by (auto simp: create_calculated_metrics_rows row)
  then show ?thesis by (simp add: price_bin_def)
qed

theorem price_category_upper_inclusive_witness:
  "create_calculated_metrics 2024 [fixture_row, fixture_row\<lparr>price := Some 5.01\<rparr>]
     = Inr (map (\<lambda>r. metrics_row 2024 (Some 100) r 1500000)
              [fixture_row, fixture_row\<lparr>price := Some 5.01\<rparr>])
   \<and> map price_category
        (map (\<lambda>r. metrics_row 2024 (Some 100) r 1500000)
           [fixture_row, fixture_row\<lparr>price := Some 5.01\<rparr>])
       = [Some ''Free/Cheap'', Some ''Budget'']"
proof -
  have ov: "owners_value (Some ''1000000-2000000'') = 1500000"
    by (rule owners_value_fixture)
  have e: "create_calculated_metrics 2024 [fixture_row, fixture_row\<lparr>price := Some 5.01\<rparr>]
     = Inr (map (\<lambda>r. metrics_row 2024 (Some 100) r 1500000)
              [fixture_row, fixture_row\<lparr>price := Some 5.01\<rparr>])"
    by (simp add: create_calculated_metrics_rows series_max_def List.map_filter_simps
          fixture_row_def ov)
  from price_category_upper_inclusive
         [of 2024 "[fixture_row, fixture_row\<lparr>price := Some 5.01\<rparr>]"
             "map (\<lambda>r. metrics_row 2024 (Some 100) r 1500000)
                [fixture_row, fixture_row\<lparr>price := Some 5.01\<rparr>]"] e
  have "map price_category
        (map (\<lambda>r. metrics_row 2024 (Some 100) r 1500000)
           [fixture_row, fixture_row\<lparr>price := Some 5.01\<rparr>])
       = map (\<lambda>r. case price r of None \<Rightarrow> None | Some p \<Rightarrow> price_bin p)
           [fixture_row, fixture_row\<lparr>price := Some 5.01\<rparr>]"
    by blast
  also have "\<dots> = [Some ''Free/Cheap'', Some ''Budget'']"
    by (simp add: fixture_row_def price_bin_def)
  finally show ?thesis using e by blast
qed

subsection \<open>The positive percentage\<close>







subsection \<open>The date stage\<close>













subsection \<open>The dashboard filters\<close>

lemma year_ok_cells:
  "(ge_cell (release_year r) (fst (year_range flt))
      \<and> le_cell (release_year r) (snd (year_range flt))) = year_ok flt r"
  by (cases "release_year r") (simp_all add: ge_cell_def le_cell_def year_ok_def)

lemma year_filter:
  "loc df (mask_and (map (\<lambda>r. ge_cell (release_year r) (fst (year_range flt))) df)
                    (map (\<lambda>r. le_cell (release_year r) (snd (year_range flt))) df))
     = filter (year_ok flt) df"
  by (simp add: mask_and_map loc_map year_ok_cells)

lemma genre_filter:
  "(if genre flt \<noteq> ''Todos'' then loc df (map (\<lambda>r. primary_genre r = genre flt) df) else df)
     = filter (genre_ok flt) df"
proof (cases "genre flt = ''Todos''")
  case True
  then have "filter (genre_ok flt) df = df" by (simp add: genre_ok_def)
  with True show ?thesis by simp
next
  case False
  then have "genre_ok flt = (\<lambda>r. primary_genre r = genre flt)"
    by (simp add: fun_eq_iff genre_ok_def)
  with False show ?thesis by (simp add: loc_map)
qed

lemma price_category_filter:
  "(if sel_price_category flt \<noteq> ''Todas''
    then loc df (map (\<lambda>r. eq_cell (price_category r) (sel_price_category flt)) df) else df)
     = filter (price_category_ok flt) df"
proof (cases "sel_price_category flt = ''Todas''")
  case True
  then have "filter (price_category_ok flt) df = df" by (simp add: price_category_ok_def)
  with True show ?thesis by simp
next
  case False
  have "eq_cell (price_category r) c = (price_category r = Some c)" for r :: game and c
    by (cases "price_category r") (simp_all add: eq_cell_def)
  with False have "price_category_ok flt
      = (\<lambda>r. eq_cell (price_category r) (sel_price_category flt))"
    by (simp add: fun_eq_iff price_category_ok_def)
  with False show ?thesis by (simp add: loc_map)
qed



lemma list_ex_three:
  "list_ex (\<lambda>pl. pl = w \<or> pl = m \<or> pl = l) S = (w \<in> set S \<or> m \<in> set S \<or> l \<in> set S)"
  by (auto simp: list_ex_iff)

lemma list_ex_three_flags:
  "list_ex (\<lambda>pl. (pl = w \<and> a) \<or> (pl = m \<and> b) \<or> (pl = l \<and> c)) S
     = ((w \<in> set S \<and> a = True) \<or> (m \<in> set S \<and> b = True) \<or> (l \<in> set S \<and> c = True))"
  by (auto simp: list_ex_iff)

lemma not_or_if: "(\<not> P \<or> Q) = (if P then Q else True)"
  by simp

lemma supports_fun:
  "supports r = (\<lambda>pl. (pl = ''Windows'' \<and> has_windows r) \<or> (pl = ''Mac'' \<and> has_mac r)
                         \<or> (pl = ''Linux'' \<and> has_linux r))"
  by (rule ext) (simp only: supports_def)

lemma platform_ok_fun:
  "platform_ok flt =
     (\<lambda>r. if ''Windows'' \<in> set (sel_platforms flt) \<or> ''Mac'' \<in> set (sel_platforms flt)
               \<or> ''Linux'' \<in> set (sel_platforms flt)
            then (''Windows'' \<in> set (sel_platforms flt) \<and> has_windows r = True)
                 \<or> (''Mac'' \<in> set (sel_platforms flt) \<and> has_mac r = True)
                 \<or> (''Linux'' \<in> set (sel_platforms flt) \<and> has_linux r = True)
            else True)"
  by (rule ext)
     (simp only: platform_ok_def platform_filter_active_def supports_fun list_ex_three
        list_ex_three_flags not_or_if)

lemma platform_masks:
  fixes W M L :: bool
  shows
  "(case (if L
          then ((if M
                 then ((if W then [] @ [map A df] else []) @ [map B df])
                 else (if W then [] @ [map A df] else []))
                @ [map C df])
          else (if M
                then ((if W then [] @ [map A df] else []) @ [map B df])
                else (if W then [] @ [map A df] else []))) of
      [] \<Rightarrow> df
    | pf # pfs \<Rightarrow> loc df (foldl mask_or pf pfs))
     = filter (\<lambda>r. if W \<or> M \<or> L then (W \<and> A r) \<or> (M \<and> B r) \<or> (L \<and> C r) else True) df"
  by (cases W; cases M; cases L) (simp_all add: mask_or_map loc_map)

lemma apply_filters_filter:
  "apply_filters df flt
     = filter (rating_ok flt)
         (filter (platform_ok flt)
            (filter (price_category_ok flt) (filter (genre_ok flt) (filter (year_ok flt) df))))"
proof -
  have r: "rating_ok flt = (\<lambda>r. real_of_int (min_rating flt) \<le> positive_percentage r)"
    by (simp add: fun_eq_iff rating_ok_def)
  show ?thesis
    unfolding apply_filters_def Let_def
    apply (simp only: year_filter genre_filter price_category_filter)
    apply (simp only: platform_masks)
    apply (simp only: loc_map r platform_ok_fun)
    done
qed

text \<open>
  C6. \<open>apply_filters\<close> returns, in their order, exactly the rows that satisfy every
  active filter: the year lies in the selected range, the genre matches when one is
  chosen, the price category matches when one is chosen, the rating is at least the
  minimum, and the platform filter holds. The platform filter is active when one of
  Windows, Mac and Linux is selected, and a row passes it when it supports any one of
  the selected platforms.
\<close>

theorem apply_filters_conjunction:
  "apply_filters df flt
     = filter (\<lambda>r. year_ok flt r \<and> genre_ok flt r \<and> price_category_ok flt r
                    \<and> platform_ok flt r \<and> rating_ok flt r) df
   \<and> (platform_filter_active flt \<longrightarrow>
        platform_ok flt r = list_ex (supports r) (sel_platforms flt))"
  by (simp add: apply_filters_filter platform_ok_def conj_ac)

theorem apply_filters_conjunction_witness:
  "platform_filter_active (fixture_filters\<lparr>sel_platforms := [''Windows'', ''Mac'']\<rparr>)
   \<and> apply_filters [fixture_stored_row\<lparr>has_mac := True\<rparr>, fixture_stored_row,
                     fixture_stored_row\<lparr>has_mac := True, positive_percentage := 20\<rparr>]
        (fixture_filters\<lparr>sel_platforms := [''Windows'', ''Mac'']\<rparr>)
       = [fixture_stored_row\<lparr>has_mac := True\<rparr>]"
proof -
  let ?f = "fixture_filters\<lparr>sel_platforms := [''Windows'', ''Mac'']\<rparr>"
  have a: "platform_filter_active ?f"
    by (simp add: platform_filter_active_def fixture_filters_def)
  have ok: "year_ok ?f r = (release_year r \<noteq> None \<and> 2010 \<le> the (release_year r)
                            \<and> the (release_year r) \<le> 2020)"
           "genre_ok ?f r" "price_category_ok ?f r"
           "rating_ok ?f r = (50 \<le> positive_percentage r)"
           "platform_ok ?f r = (has_windows r \<or> has_mac r)" for r
    by (cases "release_year r";
        simp add: year_ok_def genre_ok_def price_category_ok_def rating_ok_def platform_ok_def
          platform_filter_active_def supports_def fixture_filters_def)+
  show ?thesis
    using a
    by (simp add: apply_filters_conjunction [of _ ?f] ok fixture_stored_row_def fixture_row_def)
qed

text \<open>
  C10. When no platform is selected, \<open>apply_filters\<close> applies no platform restriction:
  the result is the table filtered by year range, genre, price category and minimum
  rating alone, so a row that supports none of the three platforms can be included.
\<close>

theorem apply_filters_no_platform_selected:
  "sel_platforms flt = [] \<longrightarrow>
     apply_filters df flt
       = filter (\<lambda>r. year_ok flt r \<and> genre_ok flt r \<and> price_category_ok flt r
                      \<and> rating_ok flt r) df"
  by (simp add: apply_filters_filter platform_ok_def platform_filter_active_def conj_ac)

theorem apply_filters_no_platform_selected_witness:
  "sel_platforms fixture_filters = []
   \<and> \<not> has_windows fixture_stored_row \<and> \<not> has_mac fixture_stored_row
   \<and> \<not> has_linux fixture_stored_row
   \<and> apply_filters [fixture_stored_row] fixture_filters = [fixture_stored_row]"
proof -
  have e: "sel_platforms fixture_filters = []" by (simp add: fixture_filters_def)
  have p: "\<not> has_windows fixture_stored_row \<and> \<not> has_mac fixture_stored_row
           \<and> \<not> has_linux fixture_stored_row"
    by (simp add: fixture_stored_row_def fixture_row_def)
  have k: "year_ok fixture_filters fixture_stored_row \<and> genre_ok fixture_filters fixture_stored_row
           \<and> price_category_ok fixture_filters fixture_stored_row
           \<and> rating_ok fixture_filters fixture_stored_row"
    by (simp add: year_ok_def genre_ok_def price_category_ok_def rating_ok_def
          fixture_filters_def fixture_stored_row_def fixture_row_def)
  from apply_filters_no_platform_selected [of fixture_filters "[fixture_stored_row]"] e
  have "apply_filters [fixture_stored_row] fixture_filters
       = filter (\<lambda>r. year_ok fixture_filters r \<and> genre_ok fixture_filters r
                      \<and> price_category_ok fixture_filters r \<and> rating_ok fixture_filters r)
           [fixture_stored_row]"
    by blast
  with k have "apply_filters [fixture_stored_row] fixture_filters = [fixture_stored_row]"
    by simp
  with e p show ?thesis by blast
qed

subsection \<open>The five stages as one pass over the de-duplicated input\<close>










subsection \<open>Exit code of the pipeline\<close>












subsection \<open>De-duplication\<close>

lemma drop_duplicates_from_keys:
  "key ` set (drop_duplicates_from key seen xs) = key ` set xs - set seen"
  by (induction xs arbitrary: seen) auto

lemma drop_duplicates_from_unseen:
  assumes "r \<in> set (drop_duplicates_from key seen xs)"
  shows "key r \<notin> set seen"
proof -
  from assms have "key r \<in> key ` set (drop_duplicates_from key seen xs)" by (rule imageI)
  then show ?thesis unfolding drop_duplicates_from_keys by simp
qed


lemma drop_duplicates_from_first:
  "r \<in> set (drop_duplicates_from key seen xs) \<Longrightarrow> find (\<lambda>x. key x = key r) xs = Some r"
proof (induction xs arbitrary: seen)
  case Nil
  then show ?case by simp
next
  case (Cons x xs)
  show ?case
  proof (cases "key x \<in> set seen")
    case True
    with Cons.prems have r: "r \<in> set (drop_duplicates_from key seen xs)" by simp
    then have "key r \<notin> set seen" by (rule drop_duplicates_from_unseen)
    with True have "key x \<noteq> key r" by auto
    with Cons.IH[OF r] show ?thesis by simp
  next
    case False
    with Cons.prems have "r = x \<or> r \<in> set (drop_duplicates_from key (key x # seen) xs)"
      by simp
    then show ?thesis
    proof
      assume "r = x"
      then show ?thesis by simp
    next
      assume r: "r \<in> set (drop_duplicates_from key (key x # seen) xs)"
      then have "key r \<notin> set (key x # seen)" by (rule drop_duplicates_from_unseen)
      then have "key x \<noteq> key r" by auto
      with Cons.IH[OF r] show ?thesis by simp
    qed
  qed
qed



lemma drop_duplicates_first:
  "r \<in> set (drop_duplicates key df) \<Longrightarrow> find (\<lambda>x. key x = key r) df = Some r"
  by (simp add: drop_duplicates_def drop_duplicates_from_first)

















subsection \<open>Running the stages on their own output\<close>



lemma fillna_present: "x \<noteq> None \<Longrightarrow> fillna v x = x"
  by (cases x) (simp_all add: fillna_def)

lemma fillna_not_missing: "fillna v x \<noteq> None"
  by (cases x) (simp_all add: fillna_def)












end
